theory Spec2Isabelle
  imports Main
begin

section \<open>The Redis backend\<close>

text \<open>
  The store talks to Redis through five commands: \<^verbatim>\<open>hmset\<close>, \<^verbatim>\<open>hgetall\<close>, \<^verbatim>\<open>del\<close>,
  \<^verbatim>\<open>sadd\<close> and \<^verbatim>\<open>smembers\<close>. The keyspace is modelled by its two typed views: the
  hash stored at a key (no fields when the key is absent) and the members of the set
  stored at a key (none when the key is absent). The members are kept as a list without
  repetitions, in order of insertion; Redis leaves the order of \<^verbatim>\<open>smembers\<close> open, and
  the store only looks at the length of the reply and at membership in it.
  The commands here are the successful replies: a rejected command (connection lost,
  timeout) rejects the store method that awaits it, and is outside this model.
\<close>

record redis_db =
  hashes :: "string \<Rightarrow> (string \<rightharpoonup> string)"
  members :: "string \<Rightarrow> string list"

definition emptyRedis :: redis_db where
  "emptyRedis = \<lparr>hashes = (\<lambda>k. Map.empty), members = (\<lambda>k. [])\<rparr>"

definition hmset :: "redis_db \<Rightarrow> string \<Rightarrow> (string \<rightharpoonup> string) \<Rightarrow> redis_db" where
  "hmset r key obj = r\<lparr>hashes := (hashes r)(key := hashes r key ++ obj)\<rparr>"

text \<open>
  \<^verbatim>\<open>hgetall\<close> replies with an object, empty for an absent key. The reply is an option
  so that the store's \<^verbatim>\<open>!info\<close> test has a branch; this backend never replies \<open>None\<close>.
\<close>

definition hgetall :: "redis_db \<Rightarrow> string \<Rightarrow> (string \<rightharpoonup> string) option" where
  "hgetall r key = Some (hashes r key)"

text \<open>\<^verbatim>\<open>del\<close> removes the key, whatever it holds.\<close>

definition del :: "redis_db \<Rightarrow> string \<Rightarrow> redis_db" where
  "del r key = r\<lparr>hashes := (hashes r)(key := Map.empty), members := (members r)(key := [])\<rparr>"

definition sadd_one :: "string \<Rightarrow> string list \<Rightarrow> string list" where
  "sadd_one x acc = (if x \<in> set acc then acc else acc @ [x])"

definition sadd :: "redis_db \<Rightarrow> string \<Rightarrow> string list \<Rightarrow> redis_db" where
  "sadd r key batch = r\<lparr>members := (members r)(key := fold sadd_one batch (members r key))\<rparr>"

definition smembers :: "redis_db \<Rightarrow> string \<Rightarrow> string list" where
  "smembers r key = members r key"

section \<open>RedisFeatureFlagCache\<close>

record RedisFeatureFlagCache =
  redis :: redis_db
  featureKeyPrefix :: string

text \<open>The value \<^verbatim>\<open>getFeature\<close> resolves to when it is not \<^verbatim>\<open>null\<close>:
  \<^verbatim>\<open>{ enabled: boolean; userIds?: string[] }\<close>.\<close>

record feature =
  enabled :: bool
  userIds :: "string list option"

text \<open>The two keys of a flag: \<^verbatim>\<open>`${prefix}:${flag}:info`\<close> and
  \<^verbatim>\<open>`${prefix}:${flag}:users`\<close>.\<close>

definition featureInfoKey :: "string \<Rightarrow> string \<Rightarrow> string" where
  "featureInfoKey prefix flag = prefix @ '':'' @ flag @ '':info''"

definition featureUsersKey :: "string \<Rightarrow> string \<Rightarrow> string" where
  "featureUsersKey prefix flag = prefix @ '':'' @ flag @ '':users''"

definition batchSize :: nat where
  "batchSize = 1000"

text \<open>\<^verbatim>\<open>userIds.slice(i, j)\<close> for \<open>i \<le> j\<close>: the end is clamped to the length.\<close>

definition slice :: "'a list \<Rightarrow> nat \<Rightarrow> nat \<Rightarrow> 'a list" where
  "slice xs i j = take (j - i) (drop i xs)"

text \<open>
  The loop of \<^verbatim>\<open>setFeatureFlag\<close>:
  \<^verbatim>\<open>for (let i = 0; i < userIds.length; i += batchSize) {
    const batch = userIds.slice(i, i + batchSize);
    await this.redis.sadd(featureUsersKey, ...batch); }\<close>
\<close>

function addBatches :: "redis_db \<Rightarrow> string \<Rightarrow> string list \<Rightarrow> nat \<Rightarrow> redis_db" where
  "addBatches r key ids i =
     (if i < length ids
      then addBatches (sadd r key (slice ids i (i + batchSize))) key ids (i + batchSize)
      else r)"
  by pat_completeness auto
termination
  by (relation "measure (\<lambda>(r, key, ids, i). length ids - i)") (auto simp: batchSize_def)

declare addBatches.simps [simp del]

text \<open>
  \<^verbatim>\<open>setFeatureFlag({ flag, enabled, userIds })\<close>: the enabled marker is written as the
  string \<^verbatim>\<open>'true'\<close> or \<^verbatim>\<open>'false'\<close>; the user set is deleted, and rewritten in batches
  when \<^verbatim>\<open>userIds && userIds.length > 0\<close>.
\<close>

definition setFeatureFlag ::
  "RedisFeatureFlagCache \<Rightarrow> string \<Rightarrow> bool \<Rightarrow> string list option \<Rightarrow> RedisFeatureFlagCache" where
  "setFeatureFlag this flag en ids_opt =
     (let infoKey = featureInfoKey (featureKeyPrefix this) flag;
          usersKey = featureUsersKey (featureKeyPrefix this) flag;
          r1 = hmset (redis this) infoKey [''enabled'' \<mapsto> (if en then ''true'' else ''false'')];
          r2 = (case ids_opt of
                  Some ids \<Rightarrow>
                    if length ids > 0 then addBatches (del r1 usersKey) usersKey ids 0
                    else del r1 usersKey
                | None \<Rightarrow> del r1 usersKey)
      in this\<lparr>redis := r2\<rparr>)"

text \<open>\<^verbatim>\<open>getFeature(flag)\<close>; \<open>None\<close> is \<^verbatim>\<open>null\<close>.\<close>

definition getFeature :: "RedisFeatureFlagCache \<Rightarrow> string \<Rightarrow> feature option" where
  "getFeature this flag =
     (let infoKey = featureInfoKey (featureKeyPrefix this) flag;
          usersKey = featureUsersKey (featureKeyPrefix this) flag
      in case hgetall (redis this) infoKey of
           None \<Rightarrow> None
         | Some info \<Rightarrow>
             if info ''enabled'' = None then None
             else let en = (info ''enabled'' = Some ''true'');
                      ids = smembers (redis this) usersKey
                  in Some \<lparr>enabled = en,
                           userIds = (if length ids > 0 then Some ids else None)\<rparr>)"

text \<open>\<^verbatim>\<open>hasFeatureFlag(flag, userId)\<close>.\<close>

definition hasFeatureFlag :: "RedisFeatureFlagCache \<Rightarrow> string \<Rightarrow> string \<Rightarrow> bool" where
  "hasFeatureFlag this flag userId =
     (let infoKey = featureInfoKey (featureKeyPrefix this) flag;
          usersKey = featureUsersKey (featureKeyPrefix this) flag
      in case hgetall (redis this) infoKey of
           None \<Rightarrow> False
         | Some info \<Rightarrow>
             if info ''enabled'' = None then False
             else let en = (info ''enabled'' = Some ''true'')
                  in if \<not> en then False
                     else let ids = smembers (redis this) usersKey;
                              hasUsers = (length ids > 0)
                          in if \<not> hasUsers then True
                             else userId \<in> set ids)"

text \<open>What Redis holds for a flag of this store: the info hash at the flag's info key,
  and the members of the user set at its users key (none when the set is absent).\<close>

definition infoHash :: "RedisFeatureFlagCache \<Rightarrow> string \<Rightarrow> (string \<rightharpoonup> string)" where
  "infoHash this flag = hashes (redis this) (featureInfoKey (featureKeyPrefix this) flag)"

definition userSet :: "RedisFeatureFlagCache \<Rightarrow> string \<Rightarrow> string list" where
  "userSet this flag = members (redis this) (featureUsersKey (featureKeyPrefix this) flag)"

text \<open>
  The decision rule as the specification words it, on the record \<^verbatim>\<open>getFeature\<close>
  returns: \<^verbatim>\<open>null\<close> gives false; \<^verbatim>\<open>enabled\<close> false gives false; \<^verbatim>\<open>userIds\<close> absent
  gives true; otherwise the user must be among \<^verbatim>\<open>userIds\<close>. It is not part of the
  source: \<^verbatim>\<open>hasFeatureFlag\<close> is compared with it.
\<close>

definition decisionRule :: "feature option \<Rightarrow> string \<Rightarrow> bool" where
  "decisionRule record userId =
     (case record of
        None \<Rightarrow> False
      | Some ft \<Rightarrow>
          if \<not> enabled ft then False
          else (case userIds ft of None \<Rightarrow> True | Some ids \<Rightarrow> userId \<in> set ids))"

section \<open>FeatureGuard\<close>

text \<open>
  The request fields the guard reads. \<^verbatim>\<open>__user_id?: string\<close> is \<open>None\<close> when
  undefined. \<^verbatim>\<open>__is_admin\<close> is declared \<^verbatim>\<open>boolean | undefined\<close>, but the guard
  compares it with \<^verbatim>\<open>=== true\<close> because the middleware that fills it may put any
  JavaScript value there, so the field holds a JavaScript value. \<^verbatim>\<open>__feature_flags\<close> is
  an optional object from flag names to booleans.
\<close>

datatype js_value =
  JUndefined | JNull | JBool bool | JNumber int | JString string | JObject | JArray

record FeatureGuardRequest =
  user_id :: "string option"
  is_admin :: js_value
  feature_flags :: "(string \<rightharpoonup> bool) option"

datatype FeatureFlagScope = CONTROLLER | SERVICE

record FeatureFlagOptions =
  scope :: "FeatureFlagScope option"

text \<open>
  What \<^verbatim>\<open>reflector.get<string>(FEATURE_FLAG_KEY, handler)\<close> hands to the guard. The
  decorator of this repository stores one name; the guard itself tests for
  \<^verbatim>\<open>undefined\<close> and \<^verbatim>\<open>null\<close>. Types are erased at run time, and the integration
  tests of the repository hand the guard an array of names, so an array is a value of
  this type too. Wherever the value is used as a string (the template literals of the
  store's keys, the computed property key of \<^verbatim>\<open>__feature_flags\<close>), JavaScript applies
  \<^verbatim>\<open>ToString\<close>, which joins the elements of an array with commas.
\<close>

datatype flag_metadata =
  FlagUndefined | FlagNull | FlagName string | FlagNames "string list"

fun join :: "string \<Rightarrow> string list \<Rightarrow> string" where
  "join sep [] = []"
| "join sep [x] = x"
| "join sep (x # y # ys) = x @ sep @ join sep (y # ys)"

fun toString :: "flag_metadata \<Rightarrow> string" where
  "toString FlagUndefined = ''undefined''"
| "toString FlagNull = ''null''"
| "toString (FlagName s) = s"
| "toString (FlagNames xs) = join '','' xs"

text \<open>
  The \<^verbatim>\<open>FeatureGuardStore\<close> the guard is constructed with: any implementation of
  \<^verbatim>\<open>getFeature\<close> and \<^verbatim>\<open>hasFeatureFlag\<close>. Each call resolves to a value or rejects
  with an error (\<open>Inl\<close>).
\<close>

datatype store_error = StoreError string

record FeatureGuardStore =
  store_getFeature :: "flag_metadata \<Rightarrow> store_error + feature option"
  store_hasFeatureFlag :: "flag_metadata \<Rightarrow> string \<Rightarrow> store_error + bool"

text \<open>The guard over a \<open>RedisFeatureFlagCache\<close>: the store's template literals turn
  the flag value they receive into a string.\<close>

definition redisStore :: "RedisFeatureFlagCache \<Rightarrow> FeatureGuardStore" where
  "redisStore cache =
     \<lparr>store_getFeature = (\<lambda>flag. Inr (getFeature cache (toString flag))),
      store_hasFeatureFlag = (\<lambda>flag userId. Inr (hasFeatureFlag cache (toString flag) userId))\<rparr>"

text \<open>
  What one call of \<^verbatim>\<open>canActivate\<close> leaves behind: the value it resolves to (or the
  error it rejects with), the request object after the call, and the store methods it
  invoked, in order.
\<close>

datatype store_call =
  GetFeatureCall flag_metadata | HasFeatureFlagCall flag_metadata string

record outcome =
  returned :: "store_error + bool"
  request :: FeatureGuardRequest
  calls :: "store_call list"

text \<open>\<^verbatim>\<open>options?.scope\<close>\<close>

definition optionsScope :: "FeatureFlagOptions option \<Rightarrow> FeatureFlagScope option" where
  "optionsScope options = (case options of None \<Rightarrow> None | Some opts \<Rightarrow> scope opts)"

text \<open>\<^verbatim>\<open>feature?.enabled === true\<close>; on a boolean field this is also the negation of
  \<^verbatim>\<open>!feature?.enabled\<close>.\<close>

definition featureEnabled :: "feature option \<Rightarrow> bool" where
  "featureEnabled ft = (case ft of None \<Rightarrow> False | Some f \<Rightarrow> enabled f)"

text \<open>\<^verbatim>\<open>{ ...request.__feature_flags, [flag]: value }\<close>: spreading \<^verbatim>\<open>undefined\<close> adds
  nothing.\<close>

definition spreadWith ::
  "(string \<rightharpoonup> bool) option \<Rightarrow> string \<Rightarrow> bool \<Rightarrow> (string \<rightharpoonup> bool)" where
  "spreadWith old k v = (case old of None \<Rightarrow> Map.empty | Some m \<Rightarrow> m)(k \<mapsto> v)"

text \<open>
  \<^verbatim>\<open>canActivate(context)\<close>. The request, the flag metadata and the options metadata
  are what the execution context and the reflector supply.
\<close>

definition canActivate ::
  "FeatureGuardStore \<Rightarrow> flag_metadata \<Rightarrow> FeatureFlagOptions option \<Rightarrow> FeatureGuardRequest
     \<Rightarrow> outcome" where
  "canActivate store flag options req =
     (let userId = user_id req; isAdmin = is_admin req in
      if userId = None \<and> isAdmin \<noteq> JBool True then
        \<lparr>returned = Inr False, request = req, calls = []\<rparr>
      else if isAdmin = JBool True then
        \<lparr>returned = Inr True, request = req, calls = []\<rparr>
      else if flag = FlagUndefined \<or> flag = FlagNull then
        \<lparr>returned = Inr False, request = req, calls = []\<rparr>
      else
        case store_getFeature store flag of
          Inl e \<Rightarrow> \<lparr>returned = Inl e, request = req, calls = [GetFeatureCall flag]\<rparr>
        | Inr ft \<Rightarrow>
            (let (answer, called) =
                   (case userId of
                      Some uid \<Rightarrow>
                        (store_hasFeatureFlag store flag uid, [HasFeatureFlagCall flag uid])
                    | None \<Rightarrow> (Inr False, []))
             in (case answer of
                   Inl e \<Rightarrow>
                     \<lparr>returned = Inl e, request = req, calls = GetFeatureCall flag # called\<rparr>
                 | Inr hasFlag \<Rightarrow>
                     (let req' = req\<lparr>feature_flags :=
                                   Some (spreadWith (feature_flags req) (toString flag)
                                           (featureEnabled ft \<and> hasFlag))\<rparr>
                      in if optionsScope options \<noteq> Some SERVICE
                         then (if \<not> featureEnabled ft \<or> \<not> hasFlag
                               then \<lparr>returned = Inr False, request = req',
                                     calls = GetFeatureCall flag # called\<rparr>
                               else \<lparr>returned = Inr True, request = req',
                                     calls = GetFeatureCall flag # called\<rparr>)
                         else \<lparr>returned = Inr True, request = req',
                               calls = GetFeatureCall flag # called\<rparr>))))"

text \<open>\<^verbatim>\<open>request.__feature_flags?.[flag]\<close>; \<open>None\<close> is \<^verbatim>\<open>undefined\<close>.\<close>

definition flagEntry :: "FeatureGuardRequest \<Rightarrow> string \<Rightarrow> bool option" where
  "flagEntry req flag = (case feature_flags req of None \<Rightarrow> None | Some m \<Rightarrow> m flag)"

text \<open>\<^verbatim>\<open>isFeatureEnabled(request, flag)\<close>: \<^verbatim>\<open>request.__feature_flags?.[flag] === true\<close>.\<close>

definition isFeatureEnabled :: "FeatureGuardRequest \<Rightarrow> string \<Rightarrow> bool" where
  "isFeatureEnabled req flag = (flagEntry req flag = Some True)"

section \<open>Example data\<close>

text \<open>
  A store with prefix \<^verbatim>\<open>p\<close> holding four flags: \<^verbatim>\<open>beta\<close>, enabled for the users
  \<^verbatim>\<open>u1\<close> and \<^verbatim>\<open>u2\<close>; \<^verbatim>\<open>open\<close>, enabled for everyone; \<^verbatim>\<open>off\<close>, disabled, with a
  user set left behind; and \<^verbatim>\<open>bad\<close>, whose enabled marker is corrupted. The flag
  \<^verbatim>\<open>ghost\<close> was never written.
\<close>

definition exampleCache :: RedisFeatureFlagCache where
  "exampleCache =
     \<lparr>redis =
        \<lparr>hashes = (\<lambda>k. Map.empty)
           (''p:beta:info'' := [''enabled'' \<mapsto> ''true''],
            ''p:open:info'' := [''enabled'' \<mapsto> ''true''],
            ''p:off:info'' := [''enabled'' \<mapsto> ''false''],
            ''p:bad:info'' := [''enabled'' \<mapsto> ''not_a_boolean'']),
         members = (\<lambda>k. [])
           (''p:beta:users'' := [''u1'', ''u2''],
            ''p:off:users'' := [''u1''])\<rparr>,
      featureKeyPrefix = ''p''\<rparr>"

text \<open>A request of the user \<^verbatim>\<open>u1\<close>, not an admin, with one flag already evaluated.\<close>

definition exampleRequest :: FeatureGuardRequest where
  "exampleRequest =
     \<lparr>user_id = Some ''u1'', is_admin = JBool False,
      feature_flags = Some [''existing_flag'' \<mapsto> True]\<rparr>"

section \<open>Facts about the backend and the keys\<close>

lemma set_fold_sadd_one: "set (fold sadd_one xs acc) = set acc \<union> set xs"
  by (induction xs arbitrary: acc) (auto simp: sadd_one_def)

lemma fold_sadd_one_empty_iff: "fold sadd_one xs [] = [] \<longleftrightarrow> xs = []"
proof -
  have "set (fold sadd_one xs []) = set xs" by (simp add: set_fold_sadd_one)
  then show ?thesis by (metis set_empty)
qed

lemma sadd_sadd: "sadd (sadd r key xs) key ys = sadd r key (xs @ ys)"
  by (simp add: sadd_def)

lemma sadd_Nil: "sadd r key [] = r"
  by (simp add: sadd_def)

text \<open>The batches of the loop add up to one \<^verbatim>\<open>sadd\<close> of the remaining identifiers.\<close>

lemma addBatches_sadd: "addBatches r key ids i = sadd r key (drop i ids)"
proof (induction r key ids i rule: addBatches.induct)
  case (1 r key ids i)
  show ?case
  proof (cases "i < length ids")
    case True
    have "addBatches r key ids i
            = addBatches (sadd r key (slice ids i (i + batchSize))) key ids (i + batchSize)"
      using True by (subst addBatches.simps) simp
    also have "\<dots> = sadd (sadd r key (slice ids i (i + batchSize))) key (drop (i + batchSize) ids)"
      using "1.IH" [OF True] .
    also have "\<dots> = sadd r key (take batchSize (drop i ids) @ drop batchSize (drop i ids))"
      by (simp add: sadd_sadd slice_def add.commute)
    also have "\<dots> = sadd r key (drop i ids)"
      by (simp only: append_take_drop_id)
    finally show ?thesis .
  next
    case False
    then show ?thesis by (subst addBatches.simps) (simp add: sadd_Nil)
  qed
qed

text \<open>An info key and a users key never coincide, whatever the prefixes and the flag
  names: the hash view and the set view of the keyspace do not overlap on the keys the
  store uses.\<close>

lemma info_key_neq_users_key: "featureInfoKey p f \<noteq> featureUsersKey p' f'"
proof
  assume "featureInfoKey p f = featureUsersKey p' f'"
  then have "last (featureInfoKey p f) = last (featureUsersKey p' f')" by simp
  then show False by (simp add: featureInfoKey_def featureUsersKey_def)
qed

text \<open>The backend after \<^verbatim>\<open>setFeatureFlag\<close>, in closed form.\<close>

lemma setFeatureFlag_redis:
  "redis (setFeatureFlag c f e ids_opt) =
     (redis c)\<lparr>hashes := ((hashes (redis c))
                   (featureInfoKey (featureKeyPrefix c) f :=
                      (hashes (redis c) (featureInfoKey (featureKeyPrefix c) f))
                        (''enabled'' \<mapsto> (if e then ''true'' else ''false''))))
                   (featureUsersKey (featureKeyPrefix c) f := Map.empty),
               members := (members (redis c))
                   (featureUsersKey (featureKeyPrefix c) f :=
                      fold sadd_one (case ids_opt of None \<Rightarrow> [] | Some ids \<Rightarrow> ids) [])\<rparr>"
  by (cases ids_opt)
    (simp_all add: setFeatureFlag_def Let_def addBatches_sadd hmset_def del_def sadd_def)

lemma setFeatureFlag_prefix:
  "featureKeyPrefix (setFeatureFlag c f e ids_opt) = featureKeyPrefix c"
  by (simp add: setFeatureFlag_def Let_def)

lemma featureInfoKey_inj: "featureInfoKey p f = featureInfoKey p g \<longleftrightarrow> f = g"
  by (simp add: featureInfoKey_def)

lemma featureUsersKey_inj: "featureUsersKey p f = featureUsersKey p g \<longleftrightarrow> f = g"
  by (simp add: featureUsersKey_def)

lemma userSet_setFeatureFlag:
  "userSet (setFeatureFlag c f e ids_opt) f
     = fold sadd_one (case ids_opt of None \<Rightarrow> [] | Some ids \<Rightarrow> ids) []"
  by (simp add: userSet_def setFeatureFlag_redis setFeatureFlag_prefix)

lemma infoHash_setFeatureFlag:
  "infoHash (setFeatureFlag c f e ids_opt) f
     = (infoHash c f)(''enabled'' \<mapsto> (if e then ''true'' else ''false''))"
  by (simp add: infoHash_def setFeatureFlag_redis setFeatureFlag_prefix info_key_neq_users_key)

text \<open>Writing one flag leaves the info hash and the user set of every other flag of the
  same store as they were.\<close>

lemma infoHash_other_flag:
  "f \<noteq> g \<Longrightarrow> infoHash (setFeatureFlag c g e ids_opt) f = infoHash c f"
  by (simp add: infoHash_def setFeatureFlag_redis setFeatureFlag_prefix
      featureInfoKey_inj info_key_neq_users_key)

lemma userSet_other_flag:
  "f \<noteq> g \<Longrightarrow> userSet (setFeatureFlag c g e ids_opt) f = userSet c f"
  by (simp add: userSet_def setFeatureFlag_redis setFeatureFlag_prefix featureUsersKey_inj)

text \<open>\<^verbatim>\<open>getFeature\<close> in terms of what Redis holds for the flag.\<close>

lemma getFeature_observed:
  "getFeature c f =
     (if infoHash c f ''enabled'' = None then None
      else Some \<lparr>enabled = (infoHash c f ''enabled'' = Some ''true''),
                 userIds = (if userSet c f = [] then None else Some (userSet c f))\<rparr>)"
  by (simp add: getFeature_def infoHash_def userSet_def hgetall_def smembers_def Let_def)

lemma getFeature_other_flag:
  "f \<noteq> g \<Longrightarrow> getFeature (setFeatureFlag c g e ids_opt) f = getFeature c f"
  by (simp add: getFeature_observed infoHash_other_flag userSet_other_flag)

text \<open>A second \<^verbatim>\<open>setFeatureFlag\<close> for the same flag leaves the state the second call
  alone would have produced.\<close>

lemma setFeatureFlag_twice:
  "setFeatureFlag (setFeatureFlag c f e1 ids1) f e2 ids2 = setFeatureFlag c f e2 ids2"
proof -
  have "redis (setFeatureFlag (setFeatureFlag c f e1 ids1) f e2 ids2)
          = redis (setFeatureFlag c f e2 ids2)"
    by (simp add: setFeatureFlag_redis setFeatureFlag_prefix info_key_neq_users_key)
  moreover have "featureKeyPrefix (setFeatureFlag (setFeatureFlag c f e1 ids1) f e2 ids2)
          = featureKeyPrefix (setFeatureFlag c f e2 ids2)"
    by (simp add: setFeatureFlag_prefix)
  moreover have "RedisFeatureFlagCache.more (setFeatureFlag (setFeatureFlag c f e1 ids1) f e2 ids2)
          = RedisFeatureFlagCache.more (setFeatureFlag c f e2 ids2)"
    by (simp add: setFeatureFlag_def Let_def)
  ultimately show ?thesis by simp
qed

section \<open>Facts about the guard and the example data\<close>

lemma redisStore_getFeature:
  "store_getFeature (redisStore c) flag = Inr (getFeature c (toString flag))"
  by (simp add: redisStore_def)

lemma redisStore_hasFeatureFlag:
  "store_hasFeatureFlag (redisStore c) flag uid = Inr (hasFeatureFlag c (toString flag) uid)"
  by (simp add: redisStore_def)

text \<open>The outcome of a call that gets as far as the store and is answered by it.\<close>

lemma canActivate_evaluates:
  assumes "user_id req = Some uid" and "is_admin req \<noteq> JBool True"
    and "flag \<noteq> FlagUndefined" and "flag \<noteq> FlagNull"
    and "store_getFeature store flag = Inr ft"
    and "store_hasFeatureFlag store flag uid = Inr hasFlag"
  shows "canActivate store flag options req =
     \<lparr>returned = Inr (optionsScope options = Some SERVICE \<or> (featureEnabled ft \<and> hasFlag)),
      request = req\<lparr>feature_flags :=
                  Some (spreadWith (feature_flags req) (toString flag)
                          (featureEnabled ft \<and> hasFlag))\<rparr>,
      calls = [GetFeatureCall flag, HasFeatureFlagCall flag uid]\<rparr>"
  using assms by (auto simp: canActivate_def Let_def)

lemmas example_store =
  exampleCache_def infoHash_def userSet_def featureInfoKey_def featureUsersKey_def

lemma example_getFeature:
  "getFeature exampleCache ''beta'' = Some \<lparr>enabled = True, userIds = Some [''u1'', ''u2'']\<rparr>"
  "getFeature exampleCache ''open'' = Some \<lparr>enabled = True, userIds = None\<rparr>"
  "getFeature exampleCache ''off'' = Some \<lparr>enabled = False, userIds = Some [''u1'']\<rparr>"
  "getFeature exampleCache ''beta,open'' = None"
  "getFeature exampleCache ''existing_flag'' = None"
  by (simp_all add: getFeature_observed example_store)

lemma example_hasFeatureFlag:
  "hasFeatureFlag exampleCache ''beta'' ''u1'' = True"
  "hasFeatureFlag exampleCache ''open'' ''u1'' = True"
  "hasFeatureFlag exampleCache ''off'' ''u1'' = False"
  "hasFeatureFlag exampleCache ''beta,open'' ''u1'' = False"
  "hasFeatureFlag exampleCache ''existing_flag'' ''u1'' = False"
  by (simp_all add: hasFeatureFlag_def hgetall_def smembers_def example_store)

lemma exampleRequest_fields:
  "user_id exampleRequest = Some ''u1''"
  "is_admin exampleRequest = JBool False"
  "feature_flags exampleRequest = Some [''existing_flag'' \<mapsto> True]"
  by (simp_all add: exampleRequest_def)

lemma exampleRequest_flagEntry:
  "flagEntry exampleRequest ''existing_flag'' = Some True"
  "flagEntry exampleRequest ''other'' = None"
  by (simp_all add: flagEntry_def exampleRequest_def)

lemmas example_guard =
  redisStore_getFeature redisStore_hasFeatureFlag example_getFeature example_hasFeatureFlag
  exampleRequest_fields featureEnabled_def optionsScope_def

section \<open>The store's decision\<close>

text \<open>
  C1. For every flag \<open>f\<close> and user \<open>u\<close>, \<^verbatim>\<open>hasFeatureFlag(f, u)\<close> is false when the
  info hash of \<open>f\<close> has no \<^verbatim>\<open>enabled\<close> field; false when the field holds any string
  \<open>v\<close> other than \<^verbatim>\<open>"true"\<close> (\<^verbatim>\<open>"false"\<close> or a corrupted value; the method has no
  throwing path of its own, its result is a boolean); true when the field is
  \<^verbatim>\<open>"true"\<close> and the user set of \<open>f\<close> is empty or absent; and the membership of \<open>u\<close>
  in the user set when the field is \<^verbatim>\<open>"true"\<close> and the set is not empty.
\<close>

theorem hasFeatureFlag_decision:
  "(infoHash c f ''enabled'' = None \<longrightarrow> \<not> hasFeatureFlag c f u) \<and>
   (infoHash c f ''enabled'' = Some v \<and> v \<noteq> ''true'' \<longrightarrow> \<not> hasFeatureFlag c f u) \<and>
   (infoHash c f ''enabled'' = Some ''true'' \<and> userSet c f = [] \<longrightarrow> hasFeatureFlag c f u) \<and>
   (infoHash c f ''enabled'' = Some ''true'' \<and> userSet c f \<noteq> [] \<longrightarrow>
      hasFeatureFlag c f u = (u \<in> set (userSet c f)))"
  by (auto simp: hasFeatureFlag_def infoHash_def userSet_def hgetall_def smembers_def Let_def)

theorem hasFeatureFlag_decision_witness:
  "\<not> hasFeatureFlag exampleCache ''ghost'' ''u1'' \<and>
   \<not> hasFeatureFlag exampleCache ''off'' ''u1'' \<and>
   \<not> hasFeatureFlag exampleCache ''bad'' ''u1'' \<and>
   hasFeatureFlag exampleCache ''open'' ''u9'' \<and>
   hasFeatureFlag exampleCache ''beta'' ''u1'' \<and>
   \<not> hasFeatureFlag exampleCache ''beta'' ''u3''"
  using
    hasFeatureFlag_decision [where c = exampleCache and f = "''ghost''" and u = "''u1''"]
    hasFeatureFlag_decision [where c = exampleCache and f = "''off''" and v = "''false''"
      and u = "''u1''"]
    hasFeatureFlag_decision [where c = exampleCache and f = "''bad''"
      and v = "''not_a_boolean''" and u = "''u1''"]
    hasFeatureFlag_decision [where c = exampleCache and f = "''open''" and u = "''u9''"]
    hasFeatureFlag_decision [where c = exampleCache and f = "''beta''" and u = "''u1''"]
    hasFeatureFlag_decision [where c = exampleCache and f = "''beta''" and u = "''u3''"]
  by (simp add: example_store)

text \<open>
  C7. \<^verbatim>\<open>getFeature(f)\<close> is \<^verbatim>\<open>null\<close> exactly when the info hash of \<open>f\<close> has no
  \<^verbatim>\<open>enabled\<close> field, and a record in every other case. A flag never written has no such
  field: \<^verbatim>\<open>getFeature\<close> is \<^verbatim>\<open>null\<close> on the empty backend, and writing another flag
  \<open>g\<close> of the store does not change what \<^verbatim>\<open>getFeature(f)\<close> returns.
\<close>

theorem getFeature_null_iff:
  "(getFeature c f = None) = (infoHash c f ''enabled'' = None) \<and>
   getFeature \<lparr>redis = emptyRedis, featureKeyPrefix = p\<rparr> f = None \<and>
   (f \<noteq> g \<longrightarrow> getFeature (setFeatureFlag c g e ids_opt) f = getFeature c f)"
proof (intro conjI impI)
  show "(getFeature c f = None) = (infoHash c f ''enabled'' = None)"
    by (simp add: getFeature_observed)
  show "getFeature \<lparr>redis = emptyRedis, featureKeyPrefix = p\<rparr> f = None"
    by (simp add: getFeature_observed infoHash_def emptyRedis_def)
  show "getFeature (setFeatureFlag c g e ids_opt) f = getFeature c f" if "f \<noteq> g"
    using that by (rule getFeature_other_flag)
qed

theorem getFeature_null_iff_witness:
  "getFeature exampleCache ''ghost'' = None \<and>
   getFeature exampleCache ''bad'' \<noteq> None \<and>
   getFeature exampleCache ''off'' \<noteq> None \<and>
   getFeature \<lparr>redis = emptyRedis, featureKeyPrefix = ''p''\<rparr> ''beta'' = None \<and>
   getFeature (setFeatureFlag exampleCache ''beta'' True None) ''ghost'' = None"
proof -
  have "getFeature exampleCache ''ghost'' = None"
    using getFeature_null_iff [where c = exampleCache and f = "''ghost''"]
    by (simp add: example_store)
  moreover have "getFeature exampleCache ''bad'' \<noteq> None"
    using getFeature_null_iff [where c = exampleCache and f = "''bad''"]
    by (simp add: example_store)
  moreover have "getFeature exampleCache ''off'' \<noteq> None"
    using getFeature_null_iff [where c = exampleCache and f = "''off''"]
    by (simp add: example_store)
  moreover have "getFeature \<lparr>redis = emptyRedis, featureKeyPrefix = ''p''\<rparr> ''beta'' = None"
    using getFeature_null_iff [where p = "''p''" and f = "''beta''"] by simp
  moreover have "getFeature (setFeatureFlag exampleCache ''beta'' True None) ''ghost''
      = getFeature exampleCache ''ghost''"
    using getFeature_null_iff [where c = exampleCache and f = "''ghost''" and g = "''beta''"
        and e = True and ids_opt = None]
    by simp
  ultimately show ?thesis by simp
qed

text \<open>
  C10. On one store state, \<^verbatim>\<open>hasFeatureFlag(f, u)\<close> is the decision rule applied to
  what \<^verbatim>\<open>getFeature(f)\<close> returns, and \<^verbatim>\<open>getFeature\<close> never returns a record whose
  \<^verbatim>\<open>userIds\<close> is an empty array (an empty user set is reported as absent), so the two
  read paths agree on which flags are global and which are targeted.
\<close>

theorem hasFeatureFlag_refines_decisionRule:
  "hasFeatureFlag c f u = decisionRule (getFeature c f) u \<and>
   map_option userIds (getFeature c f) \<noteq> Some (Some [])"
  by (auto simp: hasFeatureFlag_def getFeature_def decisionRule_def hgetall_def smembers_def
      Let_def)

theorem hasFeatureFlag_refines_decisionRule_witness:
  "hasFeatureFlag exampleCache ''beta'' ''u2''
     = decisionRule (Some \<lparr>enabled = True, userIds = Some [''u1'', ''u2'']\<rparr>) ''u2'' \<and>
   hasFeatureFlag exampleCache ''open'' ''u2''
     = decisionRule (Some \<lparr>enabled = True, userIds = None\<rparr>) ''u2'' \<and>
   hasFeatureFlag exampleCache ''off'' ''u1''
     = decisionRule (Some \<lparr>enabled = False, userIds = Some [''u1'']\<rparr>) ''u1'' \<and>
   hasFeatureFlag exampleCache ''beta,open'' ''u2'' = decisionRule None ''u2''"
  using
    hasFeatureFlag_refines_decisionRule [where c = exampleCache and f = "''beta''"
      and u = "''u2''"]
    hasFeatureFlag_refines_decisionRule [where c = exampleCache and f = "''open''"
      and u = "''u2''"]
    hasFeatureFlag_refines_decisionRule [where c = exampleCache and f = "''off''"
      and u = "''u1''"]
    hasFeatureFlag_refines_decisionRule [where c = exampleCache and f = "''beta,open''"
      and u = "''u2''"]
  by (simp add: example_getFeature)

section \<open>Writing a flag\<close>

text \<open>
  C8. \<^verbatim>\<open>setFeatureFlag\<close> replaces the record of a flag as a whole. After two calls for
  the same flag with different \<^verbatim>\<open>userIds\<close> the stored user set holds exactly the
  identifiers of the second list; more generally the state after the two calls is the
  state the second call alone produces, so nothing of the first call is merged in. With
  \<^verbatim>\<open>userIds\<close> absent or empty the user set is deleted. Repeating a call changes
  nothing. The enabled marker is the one of the last call.
\<close>

theorem setFeatureFlag_replaces:
  "set (userSet (setFeatureFlag (setFeatureFlag c f e1 (Some ids1)) f e2 (Some ids2)) f)
     = set ids2 \<and>
   setFeatureFlag (setFeatureFlag c f e1 ids_opt1) f e2 ids_opt2
     = setFeatureFlag c f e2 ids_opt2 \<and>
   userSet (setFeatureFlag c f e1 None) f = [] \<and>
   userSet (setFeatureFlag c f e1 (Some [])) f = [] \<and>
   setFeatureFlag (setFeatureFlag c f e1 ids_opt1) f e1 ids_opt1
     = setFeatureFlag c f e1 ids_opt1 \<and>
   infoHash (setFeatureFlag c f e1 ids_opt1) f ''enabled''
     = Some (if e1 then ''true'' else ''false'')"
  by (simp add: setFeatureFlag_twice userSet_setFeatureFlag infoHash_setFeatureFlag
      set_fold_sadd_one)

theorem setFeatureFlag_replaces_witness:
  "set (userSet (setFeatureFlag
          (setFeatureFlag exampleCache ''beta'' True (Some [''u1'', ''u2'']))
          ''beta'' True (Some [''u3''])) ''beta'') = {''u3''} \<and>
   userSet (setFeatureFlag exampleCache ''beta'' False None) ''beta'' = [] \<and>
   userSet (setFeatureFlag exampleCache ''beta'' False (Some [])) ''beta'' = [] \<and>
   setFeatureFlag (setFeatureFlag exampleCache ''beta'' False None) ''beta'' False None
     = setFeatureFlag exampleCache ''beta'' False None \<and>
   infoHash (setFeatureFlag exampleCache ''beta'' False None) ''beta'' ''enabled''
     = Some ''false''"
proof -
  note twice = setFeatureFlag_replaces [where c = exampleCache and f = "''beta''"
      and ?e1.0 = True and ?ids1.0 = "[''u1'', ''u2'']" and ?e2.0 = True
      and ?ids2.0 = "[''u3'']"]
  note once = setFeatureFlag_replaces [where c = exampleCache and f = "''beta''"
      and ?e1.0 = False and ?ids_opt1.0 = None]
  have "set (userSet (setFeatureFlag
          (setFeatureFlag exampleCache ''beta'' True (Some [''u1'', ''u2'']))
          ''beta'' True (Some [''u3''])) ''beta'') = set [''u3'']"
    using twice by blast
  moreover have "userSet (setFeatureFlag exampleCache ''beta'' False None) ''beta'' = []"
    using once by blast
  moreover have "userSet (setFeatureFlag exampleCache ''beta'' False (Some [])) ''beta'' = []"
    using once by blast
  moreover have "setFeatureFlag (setFeatureFlag exampleCache ''beta'' False None)
       ''beta'' False None = setFeatureFlag exampleCache ''beta'' False None"
    using once by blast
  moreover have "infoHash (setFeatureFlag exampleCache ''beta'' False None) ''beta'' ''enabled''
       = Some (if False then ''true'' else ''false'')"
    using once by blast
  ultimately show ?thesis by simp
qed

section \<open>The guard: bypass and anonymous denial\<close>

text \<open>
  C2. When \<^verbatim>\<open>__is_admin\<close> is the boolean \<^verbatim>\<open>true\<close>, \<^verbatim>\<open>canActivate\<close> resolves to
  \<^verbatim>\<open>true\<close> at once: no store method is invoked (the list of calls is empty) and the
  request, with its \<^verbatim>\<open>__feature_flags\<close>, is the one that came in. This holds for every
  store, also one whose methods all reject, and for every flag and options metadata.
\<close>

theorem canActivate_admin_bypass:
  "is_admin req = JBool True \<Longrightarrow>
   canActivate store flag options req = \<lparr>returned = Inr True, request = req, calls = []\<rparr>"
  by (simp add: canActivate_def)

theorem canActivate_admin_bypass_witness:
  "is_admin \<lparr>user_id = None, is_admin = JBool True,
             feature_flags = Some [''old'' \<mapsto> False]\<rparr> = JBool True \<and>
   canActivate
     \<lparr>store_getFeature = (\<lambda>flag. Inl (StoreError ''ECONNREFUSED'')),
      store_hasFeatureFlag = (\<lambda>flag u. Inl (StoreError ''ECONNREFUSED''))\<rparr>
     (FlagName ''beta'') None
     \<lparr>user_id = None, is_admin = JBool True, feature_flags = Some [''old'' \<mapsto> False]\<rparr>
   = \<lparr>returned = Inr True,
      request = \<lparr>user_id = None, is_admin = JBool True,
                 feature_flags = Some [''old'' \<mapsto> False]\<rparr>,
      calls = []\<rparr>"
  using canActivate_admin_bypass
    [of "\<lparr>user_id = None, is_admin = JBool True, feature_flags = Some [''old'' \<mapsto> False]\<rparr>"
        "\<lparr>store_getFeature = (\<lambda>flag. Inl (StoreError ''ECONNREFUSED'')),
          store_hasFeatureFlag = (\<lambda>flag u. Inl (StoreError ''ECONNREFUSED''))\<rparr>"
        "FlagName ''beta''" None]
  by simp

text \<open>
  C3. When \<^verbatim>\<open>__is_admin\<close> is any value other than the boolean \<^verbatim>\<open>true\<close> (the string
  \<^verbatim>\<open>"true"\<close>, the number 1, an object, an array, \<^verbatim>\<open>null\<close>, \<^verbatim>\<open>undefined\<close>,
  \<^verbatim>\<open>false\<close>), the bypass is not taken: \<^verbatim>\<open>true\<close> is only returned after the store has
  been consulted, and the call returns, invokes and records exactly what it does for
  the same request with \<^verbatim>\<open>__is_admin\<close> the boolean \<^verbatim>\<open>false\<close>. If the identity has no
  \<^verbatim>\<open>__user_id\<close> either, the call is denied.
\<close>

theorem canActivate_non_boolean_admin:
  "is_admin req \<noteq> JBool True \<Longrightarrow>
   (returned (canActivate store flag options req) = Inr True \<longrightarrow>
      calls (canActivate store flag options req) \<noteq> []) \<and>
   returned (canActivate store flag options req)
     = returned (canActivate store flag options (req\<lparr>is_admin := JBool False\<rparr>)) \<and>
   calls (canActivate store flag options req)
     = calls (canActivate store flag options (req\<lparr>is_admin := JBool False\<rparr>)) \<and>
   feature_flags (request (canActivate store flag options req))
     = feature_flags (request (canActivate store flag options (req\<lparr>is_admin := JBool False\<rparr>))) \<and>
   (user_id req = None \<longrightarrow> returned (canActivate store flag options req) = Inr False)"
  by (auto simp add: canActivate_def Let_def split: sum.splits option.splits prod.splits)

theorem canActivate_non_boolean_admin_witness:
  "returned (canActivate (redisStore exampleCache) (FlagName ''off'') None
      (exampleRequest\<lparr>is_admin := JString ''true''\<rparr>)) = Inr False \<and>
   calls (canActivate (redisStore exampleCache) (FlagName ''off'') None
      (exampleRequest\<lparr>is_admin := JString ''true''\<rparr>))
     = [GetFeatureCall (FlagName ''off''), HasFeatureFlagCall (FlagName ''off'') ''u1''] \<and>
   returned (canActivate (redisStore exampleCache) (FlagName ''open'') None
      (exampleRequest\<lparr>user_id := None, is_admin := JNumber 1\<rparr>)) = Inr False"
proof -
  have e: "canActivate (redisStore exampleCache) (FlagName ''off'') None
             (exampleRequest\<lparr>is_admin := JBool False\<rparr>)
           = \<lparr>returned = Inr False,
              request = exampleRequest\<lparr>is_admin := JBool False, feature_flags :=
                 Some (spreadWith (feature_flags exampleRequest) ''off'' False)\<rparr>,
              calls = [GetFeatureCall (FlagName ''off''),
                       HasFeatureFlagCall (FlagName ''off'') ''u1'']\<rparr>"
    using canActivate_evaluates [where req = "exampleRequest\<lparr>is_admin := JBool False\<rparr>"
      and uid = "''u1''" and store = "redisStore exampleCache" and flag = "FlagName ''off''"
      and options = None and ft = "Some \<lparr>enabled = False, userIds = Some [''u1'']\<rparr>"
      and hasFlag = False]
    by (simp add: example_guard)
  have n1: "is_admin (exampleRequest\<lparr>is_admin := JString ''true''\<rparr>) \<noteq> JBool True"
    by simp
  have n2: "is_admin (exampleRequest\<lparr>user_id := None, is_admin := JNumber 1\<rparr>) \<noteq> JBool True"
    by simp
  have u2: "user_id (exampleRequest\<lparr>user_id := None, is_admin := JNumber 1\<rparr>) = None"
    by simp
  from canActivate_non_boolean_admin [OF n1, of "redisStore exampleCache" "FlagName ''off''" None]
  have "returned (canActivate (redisStore exampleCache) (FlagName ''off'') None
          (exampleRequest\<lparr>is_admin := JString ''true''\<rparr>)) = Inr False \<and>
        calls (canActivate (redisStore exampleCache) (FlagName ''off'') None
          (exampleRequest\<lparr>is_admin := JString ''true''\<rparr>))
          = [GetFeatureCall (FlagName ''off''), HasFeatureFlagCall (FlagName ''off'') ''u1'']"
    by (simp add: e)
  moreover
  from canActivate_non_boolean_admin [OF n2, of "redisStore exampleCache" "FlagName ''open''" None]
    u2
  have "returned (canActivate (redisStore exampleCache) (FlagName ''open'') None
          (exampleRequest\<lparr>user_id := None, is_admin := JNumber 1\<rparr>)) = Inr False"
    by blast
  ultimately show ?thesis by simp
qed

text \<open>
  C4. When \<^verbatim>\<open>__user_id\<close> is undefined and \<^verbatim>\<open>__is_admin\<close> is not the boolean
  \<^verbatim>\<open>true\<close>, \<^verbatim>\<open>canActivate\<close> resolves to \<^verbatim>\<open>false\<close> (a value, not a rejection),
  invokes no store method and leaves the request as it was.
\<close>

theorem canActivate_anonymous_denied:
  "user_id req = None \<Longrightarrow> is_admin req \<noteq> JBool True \<Longrightarrow>
   canActivate store flag options req = \<lparr>returned = Inr False, request = req, calls = []\<rparr>"
  by (simp add: canActivate_def)

theorem canActivate_anonymous_denied_witness:
  "user_id \<lparr>user_id = None, is_admin = JUndefined, feature_flags = Some [''old'' \<mapsto> True]\<rparr>
     = None \<and>
   is_admin \<lparr>user_id = None, is_admin = JUndefined, feature_flags = Some [''old'' \<mapsto> True]\<rparr>
     \<noteq> JBool True \<and>
   canActivate
     \<lparr>store_getFeature = (\<lambda>flag. Inr (Some \<lparr>enabled = True, userIds = None\<rparr>)),
      store_hasFeatureFlag = (\<lambda>flag u. Inr True)\<rparr>
     (FlagName ''beta'') (Some \<lparr>scope = Some SERVICE\<rparr>)
     \<lparr>user_id = None, is_admin = JUndefined, feature_flags = Some [''old'' \<mapsto> True]\<rparr>
   = \<lparr>returned = Inr False,
      request = \<lparr>user_id = None, is_admin = JUndefined,
                 feature_flags = Some [''old'' \<mapsto> True]\<rparr>,
      calls = []\<rparr>"
  using canActivate_anonymous_denied
    [of "\<lparr>user_id = None, is_admin = JUndefined, feature_flags = Some [''old'' \<mapsto> True]\<rparr>"
        "\<lparr>store_getFeature = (\<lambda>flag. Inr (Some \<lparr>enabled = True, userIds = None\<rparr>)),
          store_hasFeatureFlag = (\<lambda>flag u. Inr True)\<rparr>"
        "FlagName ''beta''" "Some \<lparr>scope = Some SERVICE\<rparr>"]
  by simp

section \<open>The guard: resolving the flag\<close>

text \<open>
  C5, as the code has it. The guard resolves one flag name: for a non-admin identity
  with a \<^verbatim>\<open>__user_id\<close>, a configured name \<open>n\<close> (a string, or an array of the one
  string) and a store that answers, \<^verbatim>\<open>getFeature\<close> and then \<^verbatim>\<open>hasFeatureFlag\<close> are
  invoked, each once, whatever the first returns; \<^verbatim>\<open>__feature_flags\<close> gets the entry
  \<open>n\<close> with the flag's value also when the call is a denial; and unless the scope is
  SERVICE the call returns that value.
\<close>

theorem canActivate_resolves_single_name:
  assumes "user_id req = Some uid" and "is_admin req \<noteq> JBool True"
    and "flag = FlagName n \<or> flag = FlagNames [n]"
    and "store_getFeature store flag = Inr ft"
    and "store_hasFeatureFlag store flag uid = Inr hasFlag"
  shows "calls (canActivate store flag options req)
           = [GetFeatureCall flag, HasFeatureFlagCall flag uid] \<and>
         flagEntry (request (canActivate store flag options req)) n
           = Some (featureEnabled ft \<and> hasFlag) \<and>
         (optionsScope options \<noteq> Some SERVICE \<longrightarrow>
            returned (canActivate store flag options req) = Inr (featureEnabled ft \<and> hasFlag))"
proof -
  from assms(3) have "flag \<noteq> FlagUndefined" "flag \<noteq> FlagNull" "toString flag = n" by auto
  with assms show ?thesis
    by (simp add: canActivate_evaluates flagEntry_def spreadWith_def)
qed

theorem canActivate_resolves_single_name_witness:
  "calls (canActivate (redisStore exampleCache) (FlagName ''off'') None exampleRequest)
     = [GetFeatureCall (FlagName ''off''), HasFeatureFlagCall (FlagName ''off'') ''u1''] \<and>
   flagEntry (request (canActivate (redisStore exampleCache) (FlagName ''off'') None
      exampleRequest)) ''off'' = Some False \<and>
   returned (canActivate (redisStore exampleCache) (FlagName ''off'') None exampleRequest)
     = Inr False \<and>
   flagEntry (request (canActivate (redisStore exampleCache) (FlagNames [''beta'']) None
      exampleRequest)) ''beta'' = Some True \<and>
   returned (canActivate (redisStore exampleCache) (FlagNames [''beta'']) None exampleRequest)
     = Inr True"
  using
    canActivate_resolves_single_name [where req = exampleRequest and uid = "''u1''"
      and flag = "FlagName ''off''" and n = "''off''" and store = "redisStore exampleCache"
      and options = None and ft = "Some \<lparr>enabled = False, userIds = Some [''u1'']\<rparr>"
      and hasFlag = False]
    canActivate_resolves_single_name [where req = exampleRequest and uid = "''u1''"
      and flag = "FlagNames [''beta'']" and n = "''beta''" and store = "redisStore exampleCache"
      and options = None and ft = "Some \<lparr>enabled = True, userIds = Some [''u1'', ''u2'']\<rparr>"
      and hasFlag = True]
  by (simp add: example_guard)

text \<open>
  C5 as stated fails on a list of two names. The flags \<^verbatim>\<open>beta\<close> and \<^verbatim>\<open>open\<close> are both
  enabled for the user \<^verbatim>\<open>u1\<close>, so the conjunction of their values is true; handed the
  list of the two, the guard asks the store once, for the single name
  \<^verbatim>\<open>beta,open\<close>, denies under CONTROLLER scope, and writes the one entry
  \<^verbatim>\<open>beta,open\<close>: neither listed name gets an entry.
\<close>

theorem canActivate_name_list_counterexample:
  "featureEnabled (getFeature exampleCache ''beta'') \<and>
   hasFeatureFlag exampleCache ''beta'' ''u1'' \<and>
   featureEnabled (getFeature exampleCache ''open'') \<and>
   hasFeatureFlag exampleCache ''open'' ''u1'' \<and>
   returned (canActivate (redisStore exampleCache) (FlagNames [''beta'', ''open'']) None
      exampleRequest) = Inr False \<and>
   flagEntry (request (canActivate (redisStore exampleCache) (FlagNames [''beta'', ''open''])
      None exampleRequest)) ''beta'' = None \<and>
   flagEntry (request (canActivate (redisStore exampleCache) (FlagNames [''beta'', ''open''])
      None exampleRequest)) ''open'' = None \<and>
   flagEntry (request (canActivate (redisStore exampleCache) (FlagNames [''beta'', ''open''])
      None exampleRequest)) ''beta,open'' = Some False \<and>
   calls (canActivate (redisStore exampleCache) (FlagNames [''beta'', ''open'']) None
      exampleRequest)
     = [GetFeatureCall (FlagNames [''beta'', ''open'']),
        HasFeatureFlagCall (FlagNames [''beta'', ''open'']) ''u1'']"
proof -
  have "canActivate (redisStore exampleCache) (FlagNames [''beta'', ''open'']) None
          exampleRequest
    = \<lparr>returned = Inr False,
       request = exampleRequest\<lparr>feature_flags :=
          Some (spreadWith (feature_flags exampleRequest) ''beta,open'' False)\<rparr>,
       calls = [GetFeatureCall (FlagNames [''beta'', ''open'']),
                HasFeatureFlagCall (FlagNames [''beta'', ''open'']) ''u1'']\<rparr>"
    using canActivate_evaluates [where req = exampleRequest and uid = "''u1''"
      and store = "redisStore exampleCache" and flag = "FlagNames [''beta'', ''open'']"
      and options = None and ft = None and hasFlag = False]
    by (simp add: example_guard)
  then show ?thesis
    by (simp add: example_guard flagEntry_def spreadWith_def)
qed

text \<open>
  C6, as the code has it. Under SERVICE scope, for a non-admin identity with a
  \<^verbatim>\<open>__user_id\<close>, a configured flag and a store that answers both calls,
  \<^verbatim>\<open>canActivate\<close> returns \<^verbatim>\<open>true\<close> whatever the flag's value is, and records that
  value in \<^verbatim>\<open>__feature_flags\<close>. Under the same scope, an identity with neither
  \<^verbatim>\<open>__user_id\<close> nor the boolean admin mark is denied; a non-admin call whose flag
  metadata is \<^verbatim>\<open>undefined\<close> or \<^verbatim>\<open>null\<close> is denied; and when \<^verbatim>\<open>getFeature\<close> or
  \<^verbatim>\<open>hasFeatureFlag\<close> rejects, the call rejects with the same error. In each of these
  four cases the request is left as it was.
\<close>

theorem canActivate_service_scope:
  assumes "optionsScope options = Some SERVICE"
  shows
   "(user_id req = Some uid \<and> is_admin req \<noteq> JBool True \<and>
     flag \<noteq> FlagUndefined \<and> flag \<noteq> FlagNull \<and>
     store_getFeature store flag = Inr ft \<and>
     store_hasFeatureFlag store flag uid = Inr hasFlag \<longrightarrow>
       returned (canActivate store flag options req) = Inr True \<and>
       flagEntry (request (canActivate store flag options req)) (toString flag)
         = Some (featureEnabled ft \<and> hasFlag)) \<and>
    (user_id req = None \<and> is_admin req \<noteq> JBool True \<longrightarrow>
       returned (canActivate store flag options req) = Inr False \<and>
       request (canActivate store flag options req) = req) \<and>
    (is_admin req \<noteq> JBool True \<and> (flag = FlagUndefined \<or> flag = FlagNull) \<longrightarrow>
       returned (canActivate store flag options req) = Inr False \<and>
       request (canActivate store flag options req) = req) \<and>
    (user_id req = Some uid \<and> is_admin req \<noteq> JBool True \<and>
     flag \<noteq> FlagUndefined \<and> flag \<noteq> FlagNull \<and>
     store_getFeature store flag = Inl err \<longrightarrow>
       returned (canActivate store flag options req) = Inl err \<and>
       request (canActivate store flag options req) = req) \<and>
    (user_id req = Some uid \<and> is_admin req \<noteq> JBool True \<and>
     flag \<noteq> FlagUndefined \<and> flag \<noteq> FlagNull \<and>
     store_getFeature store flag = Inr ft \<and>
     store_hasFeatureFlag store flag uid = Inl err \<longrightarrow>
       returned (canActivate store flag options req) = Inl err \<and>
       request (canActivate store flag options req) = req)"
proof (intro conjI impI)
  assume h: "user_id req = Some uid \<and> is_admin req \<noteq> JBool True \<and>
     flag \<noteq> FlagUndefined \<and> flag \<noteq> FlagNull \<and>
     store_getFeature store flag = Inr ft \<and>
     store_hasFeatureFlag store flag uid = Inr hasFlag"
  then have e: "canActivate store flag options req =
     \<lparr>returned = Inr (optionsScope options = Some SERVICE \<or> (featureEnabled ft \<and> hasFlag)),
      request = req\<lparr>feature_flags :=
                  Some (spreadWith (feature_flags req) (toString flag)
                          (featureEnabled ft \<and> hasFlag))\<rparr>,
      calls = [GetFeatureCall flag, HasFeatureFlagCall flag uid]\<rparr>"
    by (intro canActivate_evaluates) simp_all
  show "returned (canActivate store flag options req) = Inr True"
    using assms by (simp add: e)
  show "flagEntry (request (canActivate store flag options req)) (toString flag)
         = Some (featureEnabled ft \<and> hasFlag)"
    by (simp add: e flagEntry_def spreadWith_def)
qed (auto simp: canActivate_def Let_def)

theorem canActivate_service_scope_witness:
  "returned (canActivate (redisStore exampleCache) (FlagName ''off'')
      (Some \<lparr>scope = Some SERVICE\<rparr>) exampleRequest) = Inr True \<and>
   flagEntry (request (canActivate (redisStore exampleCache) (FlagName ''off'')
      (Some \<lparr>scope = Some SERVICE\<rparr>) exampleRequest)) ''off'' = Some False \<and>
   returned (canActivate (redisStore exampleCache) (FlagName ''open'')
      (Some \<lparr>scope = Some SERVICE\<rparr>) (exampleRequest\<lparr>user_id := None\<rparr>)) = Inr False \<and>
   returned (canActivate (redisStore exampleCache) FlagNull
      (Some \<lparr>scope = Some SERVICE\<rparr>) exampleRequest) = Inr False \<and>
   returned (canActivate (redisStore exampleCache) FlagUndefined
      (Some \<lparr>scope = Some SERVICE\<rparr>) exampleRequest) = Inr False \<and>
   returned (canActivate
      \<lparr>store_getFeature = (\<lambda>flag. Inl (StoreError ''ECONNREFUSED'')),
       store_hasFeatureFlag = (\<lambda>flag u. Inr True)\<rparr>
      (FlagName ''open'') (Some \<lparr>scope = Some SERVICE\<rparr>) exampleRequest)
     = Inl (StoreError ''ECONNREFUSED'') \<and>
   returned (canActivate
      \<lparr>store_getFeature = (\<lambda>flag. Inr (Some \<lparr>enabled = True, userIds = None\<rparr>)),
       store_hasFeatureFlag = (\<lambda>flag u. Inl (StoreError ''timeout''))\<rparr>
      (FlagName ''open'') (Some \<lparr>scope = Some SERVICE\<rparr>) exampleRequest)
     = Inl (StoreError ''timeout'')"
proof -
  have svc: "optionsScope (Some \<lparr>scope = Some SERVICE\<rparr>) = Some SERVICE"
    by (simp add: optionsScope_def)
  have "returned (canActivate (redisStore exampleCache) (FlagName ''off'')
          (Some \<lparr>scope = Some SERVICE\<rparr>) exampleRequest) = Inr True \<and>
        flagEntry (request (canActivate (redisStore exampleCache) (FlagName ''off'')
          (Some \<lparr>scope = Some SERVICE\<rparr>) exampleRequest)) ''off'' = Some False"
    using canActivate_service_scope [OF svc, where req = exampleRequest and uid = "''u1''"
        and flag = "FlagName ''off''" and store = "redisStore exampleCache"
        and ft = "Some \<lparr>enabled = False, userIds = Some [''u1'']\<rparr>" and hasFlag = False]
    by (simp add: example_guard)
  moreover have "returned (canActivate (redisStore exampleCache) (FlagName ''open'')
      (Some \<lparr>scope = Some SERVICE\<rparr>) (exampleRequest\<lparr>user_id := None\<rparr>)) = Inr False"
    using canActivate_service_scope [OF svc, where req = "exampleRequest\<lparr>user_id := None\<rparr>"
        and flag = "FlagName ''open''" and store = "redisStore exampleCache"]
    by (simp add: exampleRequest_fields)
  moreover have "returned (canActivate (redisStore exampleCache) FlagNull
      (Some \<lparr>scope = Some SERVICE\<rparr>) exampleRequest) = Inr False"
    using canActivate_service_scope [OF svc, where req = exampleRequest and flag = FlagNull
        and store = "redisStore exampleCache"]
    by (simp add: exampleRequest_fields)
  moreover have "returned (canActivate (redisStore exampleCache) FlagUndefined
      (Some \<lparr>scope = Some SERVICE\<rparr>) exampleRequest) = Inr False"
    using canActivate_service_scope [OF svc, where req = exampleRequest and flag = FlagUndefined
        and store = "redisStore exampleCache"]
    by (simp add: exampleRequest_fields)
  moreover have "returned (canActivate
      \<lparr>store_getFeature = (\<lambda>flag. Inl (StoreError ''ECONNREFUSED'')),
       store_hasFeatureFlag = (\<lambda>flag u. Inr True)\<rparr>
      (FlagName ''open'') (Some \<lparr>scope = Some SERVICE\<rparr>) exampleRequest)
     = Inl (StoreError ''ECONNREFUSED'')"
    using canActivate_service_scope [OF svc, where req = exampleRequest and uid = "''u1''"
        and flag = "FlagName ''open''" and err = "StoreError ''ECONNREFUSED''"
        and store = "\<lparr>store_getFeature = (\<lambda>flag. Inl (StoreError ''ECONNREFUSED'')),
                      store_hasFeatureFlag = (\<lambda>flag u. Inr True)\<rparr>"]
    by (simp add: exampleRequest_fields)
  moreover have "returned (canActivate
      \<lparr>store_getFeature = (\<lambda>flag. Inr (Some \<lparr>enabled = True, userIds = None\<rparr>)),
       store_hasFeatureFlag = (\<lambda>flag u. Inl (StoreError ''timeout''))\<rparr>
      (FlagName ''open'') (Some \<lparr>scope = Some SERVICE\<rparr>) exampleRequest)
     = Inl (StoreError ''timeout'')"
    using canActivate_service_scope [OF svc, where req = exampleRequest and uid = "''u1''"
        and flag = "FlagName ''open''" and err = "StoreError ''timeout''"
        and ft = "Some \<lparr>enabled = True, userIds = None\<rparr>"
        and store = "\<lparr>store_getFeature = (\<lambda>flag. Inr (Some \<lparr>enabled = True, userIds = None\<rparr>)),
                      store_hasFeatureFlag = (\<lambda>flag u. Inl (StoreError ''timeout''))\<rparr>"]
    by (simp add: exampleRequest_fields)
  ultimately show ?thesis by simp
qed

text \<open>
  C6 as stated fails: under SERVICE scope the call of an identity without
  \<^verbatim>\<open>__user_id\<close> that is not an admin returns \<^verbatim>\<open>false\<close>, so does a call with no flag
  configured, and a call whose store rejects is rejected.
\<close>

theorem canActivate_service_scope_counterexample:
  "returned (canActivate (redisStore exampleCache) (FlagName ''open'')
      (Some \<lparr>scope = Some SERVICE\<rparr>) (exampleRequest\<lparr>user_id := None\<rparr>)) = Inr False \<and>
   returned (canActivate (redisStore exampleCache) FlagUndefined
      (Some \<lparr>scope = Some SERVICE\<rparr>) exampleRequest) = Inr False \<and>
   returned (canActivate
      \<lparr>store_getFeature = (\<lambda>flag. Inl (StoreError ''Store error'')),
       store_hasFeatureFlag = (\<lambda>flag u. Inr True)\<rparr>
      (FlagName ''open'') (Some \<lparr>scope = Some SERVICE\<rparr>) exampleRequest)
     = Inl (StoreError ''Store error'')"
  by (simp add: canActivate_def exampleRequest_fields)

text \<open>
  C9. When \<^verbatim>\<open>canActivate\<close> writes the result of a flag into the request, the new
  \<^verbatim>\<open>__feature_flags\<close> has the flag's value at the flag's name, replacing what was there,
  and at every other name \<open>k\<close> what the old \<^verbatim>\<open>__feature_flags\<close> had there (an entry or
  none).
\<close>

theorem canActivate_merges_flag:
  assumes "user_id req = Some uid" and "is_admin req \<noteq> JBool True"
    and "flag \<noteq> FlagUndefined" and "flag \<noteq> FlagNull"
    and "store_getFeature store flag = Inr ft"
    and "store_hasFeatureFlag store flag uid = Inr hasFlag"
  shows "flagEntry (request (canActivate store flag options req)) (toString flag)
           = Some (featureEnabled ft \<and> hasFlag) \<and>
         (\<forall>k. k \<noteq> toString flag \<longrightarrow>
            flagEntry (request (canActivate store flag options req)) k = flagEntry req k)"
  using assms
  by (auto simp add: canActivate_evaluates flagEntry_def spreadWith_def split: option.splits)

theorem canActivate_merges_flag_witness:
  "flagEntry (request (canActivate (redisStore exampleCache) (FlagName ''existing_flag'')
      (Some \<lparr>scope = Some SERVICE\<rparr>) exampleRequest)) ''existing_flag'' = Some False \<and>
   flagEntry (request (canActivate (redisStore exampleCache) (FlagName ''beta'') None
      exampleRequest)) ''beta'' = Some True \<and>
   flagEntry (request (canActivate (redisStore exampleCache) (FlagName ''beta'') None
      exampleRequest)) ''existing_flag'' = Some True \<and>
   flagEntry (request (canActivate (redisStore exampleCache) (FlagName ''beta'') None
      exampleRequest)) ''other'' = None"
  using
    canActivate_merges_flag [where req = exampleRequest and uid = "''u1''"
      and flag = "FlagName ''existing_flag''" and store = "redisStore exampleCache"
      and options = "Some \<lparr>scope = Some SERVICE\<rparr>" and ft = None and hasFlag = False]
    canActivate_merges_flag [where req = exampleRequest and uid = "''u1''"
      and flag = "FlagName ''beta''" and store = "redisStore exampleCache" and options = None
      and ft = "Some \<lparr>enabled = True, userIds = Some [''u1'', ''u2'']\<rparr>" and hasFlag = True]
  by (simp add: example_guard exampleRequest_flagEntry)

end
